theory Spec2Isabelle
  imports Main "HOL-Library.Multiset"
begin

section \<open>Data model\<close>

subsection \<open>Cards, players and the game state (types/Card)\<close>

text \<open>
  Modelled from the spec: the declarations of \<open>Card\<close>, \<open>CardColor\<close>, \<open>Player\<close> and
  \<open>GameState\<close> live in \<open>types/Card\<close>, which is not among the sources. The fields are the
  ones the hook reads and writes, with the value sets the specification lists.
  Field names carry a suffix where two records would otherwise share a name.
\<close>

datatype CardColor = Red | Yellow | Green | Blue | WildColor

datatype CardType = Number | Skip | Reverse | DrawTwo | Wild | WildDrawFour

record Card =
  id_c :: string
  color_c :: CardColor
  type_c :: CardType
  value_c :: "nat option"

record Player =
  id_p :: string
  name_p :: string
  cards :: "Card list"
  isHuman :: bool
  hasCalledUno :: bool

datatype Direction = Clockwise | CounterClockwise

datatype GamePhase = Dealing | PlayingPhase | FinishedPhase

text \<open>
  \<open>topCard\<close> and the entries of \<open>discardPile\<close> are options: \<open>None\<close> is
  JavaScript's \<open>undefined\<close>, which \<open>initializeGameState\<close> stores there when dealing has
  used up the whole deck. \<open>currentPlayerIndex\<close> is a natural number; an index that is
  not a natural number below the roster's length reads \<open>undefined\<close> from the array, as
  every natural number from the length on does. \<open>winner\<close> holds the value of the
  winning player object at the time it was set.
\<close>

record GameState =
  players :: "Player list"
  currentPlayerIndex :: nat
  direction :: Direction
  topCard :: "Card option"
  drawPile :: "Card list"
  discardPile :: "Card option list"
  gamePhase :: GamePhase
  wildColor :: "CardColor option"
  winner :: "Player option"
  isBlockAllActive :: bool

subsection \<open>Rooms (types/Room.ts)\<close>

datatype RoomStatus = Waiting | Playing | Finished

record RoomPlayer =
  id_rp :: string
  name_rp :: string
  isHost_rp :: bool
  isReady :: bool
  joinedAt :: int

text \<open>\<open>currentPlayers\<close> is an integer: the decrement of \<open>PLAYER_LEFT\<close> can take it below zero.\<close>

record Room =
  id_r :: string
  name_r :: string
  hostId :: string
  hostName :: string
  maxPlayers :: int
  currentPlayers :: int
  hasPassword :: bool
  password :: "string option"
  players_r :: "RoomPlayer list"
  status :: RoomStatus
  createdAt :: int
  gameInProgress :: bool

datatype RoomEvent =
    PLAYER_JOINED RoomPlayer
  | PLAYER_LEFT string
  | PLAYER_KICKED string
  | ROOM_UPDATED Room
  | GAME_STARTED
  | GAME_ENDED
  | HOST_CHANGED string
  | KICKED_FROM_ROOM

subsection \<open>The hook's state (hooks/useRoomSystem.ts)\<close>

record RoomSystemState =
  currentRoom :: "Room option"
  currentPlayerId :: "string option"
  isHost :: bool
  activeRooms :: "Room list"
  loading :: bool
  error :: "string option"
  isConnected :: bool
  gameState :: "GameState option"

datatype js_error = TypeError

section \<open>Room-stream events\<close>

text \<open>
  The listener registered on \<open>'current-room'\<close>: the function handed to \<open>setState\<close>, from
  the previous state and the event to the next state. The shallow copy
  \<open>{ ...prev.currentRoom }\<close> shares the \<open>players\<close> array and its objects with the
  previous room; the model returns the room the new state holds.
\<close>

text \<open>The message of the kick branch, written here without its diacritics.\<close>

definition kickedMessage :: string where
  "kickedMessage = ''Ban da bi kick khoi phong''"

fun applyRoomEvent :: "RoomSystemState \<Rightarrow> RoomEvent \<Rightarrow> RoomSystemState" where
  "applyRoomEvent prev (PLAYER_JOINED player) =
     (case currentRoom prev of
        Some room \<Rightarrow>
          prev\<lparr>currentRoom := Some (room\<lparr>players_r := players_r room @ [player],
                                          currentPlayers := currentPlayers room + 1\<rparr>)\<rparr>
      | None \<Rightarrow> prev)"
| "applyRoomEvent prev (PLAYER_LEFT playerId) =
     (case currentRoom prev of
        Some room \<Rightarrow>
          prev\<lparr>currentRoom := Some (room\<lparr>players_r := filter (\<lambda>p. id_rp p \<noteq> playerId) (players_r room),
                                          currentPlayers := currentPlayers room - 1\<rparr>)\<rparr>
      | None \<Rightarrow> prev)"
| "applyRoomEvent prev (HOST_CHANGED newHostId) =
     (let newIsHost = (currentPlayerId prev = Some newHostId) in
      case currentRoom prev of
        Some room \<Rightarrow>
          prev\<lparr>currentRoom := Some (room\<lparr>hostId := newHostId,
                                          players_r := map (\<lambda>p. p\<lparr>isHost_rp := (id_rp p = newHostId)\<rparr>)
                                                         (players_r room)\<rparr>),
               isHost := newIsHost\<rparr>
      | None \<Rightarrow> prev\<lparr>isHost := newIsHost\<rparr>)"
| "applyRoomEvent prev GAME_STARTED =
     (case currentRoom prev of
        Some room \<Rightarrow> prev\<lparr>currentRoom := Some (room\<lparr>status := Playing, gameInProgress := True\<rparr>)\<rparr>
      | None \<Rightarrow> prev)"
| "applyRoomEvent prev KICKED_FROM_ROOM =
     prev\<lparr>currentRoom := None, currentPlayerId := None, isHost := False,
          gameState := None, error := Some kickedMessage\<rparr>"
| "applyRoomEvent prev (PLAYER_KICKED playerId) = prev"
| "applyRoomEvent prev (ROOM_UPDATED room) = prev"
| "applyRoomEvent prev GAME_ENDED = prev"

text \<open>The invariant of the data model: the room's counter equals the length of its roster.\<close>

definition roomCountOk :: "RoomSystemState \<Rightarrow> bool" where
  "roomCountOk s =
     (case currentRoom s of None \<Rightarrow> True
      | Some room \<Rightarrow> currentPlayers room = int (length (players_r room)))"

definition hostCount :: "Room \<Rightarrow> nat" where
  "hostCount room = length (filter isHost_rp (players_r room))"

definition idCount :: "string \<Rightarrow> Room \<Rightarrow> nat" where
  "idCount pid room = length (filter (\<lambda>p. id_rp p = pid) (players_r room))"

subsection \<open>Example rooms\<close>

definition alice :: RoomPlayer where
  "alice = \<lparr>id_rp = ''a'', name_rp = ''Alice'', isHost_rp = True, isReady = True, joinedAt = 1\<rparr>"

definition bob :: RoomPlayer where
  "bob = \<lparr>id_rp = ''b'', name_rp = ''Bob'', isHost_rp = False, isReady = True, joinedAt = 2\<rparr>"

definition room2 :: Room where
  "room2 = \<lparr>id_r = ''r1'', name_r = ''Room'', hostId = ''a'', hostName = ''Alice'',
            maxPlayers = 4, currentPlayers = 2, hasPassword = False, password = None,
            players_r = [alice, bob], status = Waiting, createdAt = 0,
            gameInProgress = False\<rparr>"

definition inRoom2 :: RoomSystemState where
  "inRoom2 = \<lparr>currentRoom = Some room2, currentPlayerId = Some ''b'', isHost = False,
              activeRooms = [], loading = False, error = None, isConnected = True,
              gameState = None\<rparr>"

section \<open>Starting a game\<close>

text \<open>
  \<open>initializeGameState\<close> builds the game from the room's roster and a deck. The deck is
  the value of \<open>shuffleDeck(createDeck())\<close>, two functions of \<open>utils/cardUtils\<close> that
  are not among the sources: it is a parameter here.
\<close>

definition nthOpt :: "'a list \<Rightarrow> nat \<Rightarrow> 'a option" where
  "nthOpt xs i = (if i < length xs then Some (xs ! i) else None)"

definition toPlayer :: "RoomPlayer \<Rightarrow> Player" where
  "toPlayer roomPlayer =
     \<lparr>id_p = id_rp roomPlayer, name_p = name_rp roomPlayer, cards = [],
      isHuman = True, hasCalledUno = False\<rparr>"

text \<open>One pass of \<open>players.forEach\<close>: each player in turn takes \<open>deck[cardIndex++]\<close> while cards are left.\<close>

fun dealRound :: "Card list \<Rightarrow> Player list \<Rightarrow> nat \<Rightarrow> Player list \<times> nat" where
  "dealRound deck [] cardIndex = ([], cardIndex)"
| "dealRound deck (player # rest) cardIndex =
     (if cardIndex < length deck
      then (case dealRound deck rest (Suc cardIndex) of
              (rest', cardIndex') \<Rightarrow>
                (player\<lparr>cards := cards player @ [deck ! cardIndex]\<rparr> # rest', cardIndex'))
      else (case dealRound deck rest cardIndex of
              (rest', cardIndex') \<Rightarrow> (player # rest', cardIndex')))"

text \<open>The outer loop \<open>for (let i = 0; i < 7; i++)\<close>, with the number of passes still to run.\<close>

fun dealRounds :: "nat \<Rightarrow> Card list \<Rightarrow> Player list \<Rightarrow> nat \<Rightarrow> Player list \<times> nat" where
  "dealRounds 0 deck ps cardIndex = (ps, cardIndex)"
| "dealRounds (Suc n) deck ps cardIndex =
     (case dealRound deck ps cardIndex of
        (ps', cardIndex') \<Rightarrow> dealRounds n deck ps' cardIndex')"

text \<open>The \<open>while\<close> loop that looks for the first number card from the dealt boundary on.\<close>

function findTopCardIndex :: "Card list \<Rightarrow> nat \<Rightarrow> nat" where
  "findTopCardIndex deck topCardIndex =
     (if topCardIndex < length deck \<and> type_c (deck ! topCardIndex) \<noteq> Number
      then findTopCardIndex deck (Suc topCardIndex)
      else topCardIndex)"
  by pat_completeness auto
termination
  by (relation "measure (\<lambda>(deck, i). length deck - i)") auto

declare findTopCardIndex.simps [simp del]

definition initialGameState :: "Card list \<Rightarrow> Room \<Rightarrow> GameState" where
  "initialGameState deck room =
     (case dealRounds 7 deck (map toPlayer (players_r room)) 0 of
        (dealt, cardIndex) \<Rightarrow>
          let topCardIndex = findTopCardIndex deck cardIndex;
              top = (case nthOpt deck topCardIndex of
                       Some c \<Rightarrow> Some c
                     | None \<Rightarrow> nthOpt deck cardIndex);
              remainingDeck = map snd (filter (\<lambda>(index, c). index \<noteq> topCardIndex \<and> index \<ge> cardIndex)
                                             (enumerate 0 deck))
          in \<lparr>players = dealt, currentPlayerIndex = 0, direction = Clockwise,
              topCard = top, drawPile = remainingDeck, discardPile = [top],
              gamePhase = PlayingPhase, wildColor = None, winner = None,
              isBlockAllActive = False\<rparr>)"

definition initializeGameState :: "Card list \<Rightarrow> RoomSystemState \<Rightarrow> Room \<Rightarrow> RoomSystemState" where
  "initializeGameState deck prev room = prev\<lparr>gameState := Some (initialGameState deck room)\<rparr>"


section \<open>Game actions\<close>

text \<open>
  \<open>playCard\<close> and \<open>drawCard\<close> first look at the hook's state, then hand \<open>setState\<close> a
  function of the previous state, which React queues and runs after the call has
  returned; the model takes the two states to be the same one (no other update is
  pending). The calls to \<open>socketService\<close> send to the transport and do not touch the
  state; they are left out. \<open>!state.currentPlayerId\<close> holds for \<open>null\<close> and for the
  empty string.
\<close>

definition falsyId :: "string option \<Rightarrow> bool" where
  "falsyId pid = (pid = None \<or> pid = Some [])"

text \<open>
  \<open>players.find(p => p.id === playerId)\<close> yields the first player object with that id;
  the assignments to it change that entry of the roster.
\<close>

fun updateFirst :: "('a \<Rightarrow> bool) \<Rightarrow> ('a \<Rightarrow> 'a) \<Rightarrow> 'a list \<Rightarrow> 'a list" where
  "updateFirst P f [] = []"
| "updateFirst P f (x # xs) = (if P x then f x # xs else x # updateFirst P f xs)"

text \<open>
  Reading \<open>currentPlayer.id\<close> when \<open>players[currentPlayerIndex]\<close> is \<open>undefined\<close> throws
  a TypeError inside the update function: the result \<open>Inl TypeError\<close>.
\<close>

definition playCard ::
  "RoomSystemState \<Rightarrow> string \<Rightarrow> Card \<Rightarrow> CardColor option \<Rightarrow> js_error + RoomSystemState" where
  "playCard prev playerId playedCard chosenColor =
     (if gameState prev = None \<or> falsyId (currentPlayerId prev) then Inr prev
      else case gameState prev of
        None \<Rightarrow> Inr prev
      | Some gs \<Rightarrow>
          (case find (\<lambda>p. id_p p = playerId) (players gs) of
             None \<Rightarrow> Inr prev
           | Some player \<Rightarrow>
               (case nthOpt (players gs) (currentPlayerIndex gs) of
                  None \<Rightarrow> Inl TypeError
                | Some currentPlayer \<Rightarrow>
                    if id_p player \<noteq> id_p currentPlayer then Inr prev
                    else
                      let hand = filter (\<lambda>c. id_c c \<noteq> id_c playedCard) (cards player);
                          newGameState =
                            gs\<lparr>players := updateFirst (\<lambda>p. id_p p = playerId)
                                              (\<lambda>p. p\<lparr>cards := hand\<rparr>) (players gs),
                               discardPile := discardPile gs @ [Some playedCard],
                               topCard := Some playedCard,
                               wildColor :=
                                 (if type_c playedCard = Wild \<or> type_c playedCard = WildDrawFour
                                  then Some (case chosenColor of Some c \<Rightarrow> c | None \<Rightarrow> Red)
                                  else None)\<rparr>
                      in Inr (prev\<lparr>gameState := Some
                           (if length hand = 0
                            then newGameState\<lparr>gamePhase := FinishedPhase,
                                              winner := Some (player\<lparr>cards := hand\<rparr>)\<rparr>
                            else newGameState\<lparr>currentPlayerIndex :=
                                   (currentPlayerIndex gs + 1) mod length (players gs)\<rparr>)\<rparr>))))"

text \<open>
  The loop of \<open>drawCard\<close>, with the number of passes still to run: each pass pops the
  last card of the draw pile, if there is one, onto the player's hand and onto
  \<open>drawnCards\<close>.
\<close>

fun drawLoop :: "nat \<Rightarrow> Card list \<Rightarrow> Card list \<Rightarrow> Card list \<Rightarrow> Card list \<times> Card list \<times> Card list" where
  "drawLoop 0 pile hand drawnCards = (pile, hand, drawnCards)"
| "drawLoop (Suc n) pile hand drawnCards =
     (if length pile > 0
      then drawLoop n (butlast pile) (hand @ [last pile]) (drawnCards @ [last pile])
      else drawLoop n pile hand drawnCards)"

text \<open>
  \<open>drawCard\<close> creates the array \<open>drawnCards\<close>, hands \<open>setState\<close> the function that fills
  it, and returns the array. React runs that function only after \<open>drawCard\<close> has
  returned: the array is empty when the caller receives it, and holds the drawn cards
  once the update has run. The outcome keeps the array at both moments, and the state
  after the update.
\<close>

record DrawOutcome =
  returnedCards :: "Card list"
  stateAfterUpdate :: RoomSystemState
  cardsAfterUpdate :: "Card list"

text \<open>
  The record \<open>GameState\<close> holds \<open>winner\<close> by value. In the program \<open>winner\<close> is either
  the roster's own player object, the one \<open>find\<close> returns for its id (\<open>playCard\<close> stores
  that object), or a copy of it (a state that came with \<open>GAME_STATE_UPDATE\<close>). In the
  first case a push onto that player's hand is a push onto \<open>winner.cards\<close>.
\<close>

datatype WinnerObject = WinnerIsRosterObject | WinnerIsCopy

text \<open>
  \<open>count\<close> is an integer (\<open>count_k\<close> below); the loop \<open>for (let i = 0; i < count; i++)\<close>
  runs \<open>nat count_k\<close> times, none for a negative count.
\<close>

definition drawCard :: "WinnerObject \<Rightarrow> RoomSystemState \<Rightarrow> string \<Rightarrow> int \<Rightarrow> DrawOutcome" where
  "drawCard alias prev playerId count_k =
     (if gameState prev = None \<or> falsyId (currentPlayerId prev)
      then \<lparr>returnedCards = [], stateAfterUpdate = prev, cardsAfterUpdate = []\<rparr>
      else case gameState prev of
        None \<Rightarrow> \<lparr>returnedCards = [], stateAfterUpdate = prev, cardsAfterUpdate = []\<rparr>
      | Some gs \<Rightarrow>
          (case find (\<lambda>p. id_p p = playerId) (players gs) of
             None \<Rightarrow> \<lparr>returnedCards = [], stateAfterUpdate = prev, cardsAfterUpdate = []\<rparr>
           | Some player \<Rightarrow>
               (case drawLoop (nat count_k) (drawPile gs) (cards player) [] of
                  (pile, hand, drawnCards) \<Rightarrow>
                    \<lparr>returnedCards = [],
                     stateAfterUpdate = prev\<lparr>gameState := Some
                       (gs\<lparr>players := updateFirst (\<lambda>p. id_p p = playerId)
                                         (\<lambda>p. p\<lparr>cards := hand\<rparr>) (players gs),
                           drawPile := pile,
                           winner := (case winner gs of
                                        None \<Rightarrow> None
                                      | Some w \<Rightarrow>
                                          if alias = WinnerIsRosterObject \<and> id_p w = playerId
                                          then Some (player\<lparr>cards := hand\<rparr>)
                                          else Some w)\<rparr>)\<rparr>,
                     cardsAfterUpdate = drawnCards\<rparr>)))"


subsection \<open>Example games\<close>

definition mkCard :: "string \<Rightarrow> CardType \<Rightarrow> Card" where
  "mkCard i t = \<lparr>id_c = i, color_c = Red, type_c = t, value_c = None\<rparr>"

definition mkPlayer :: "string \<Rightarrow> Card list \<Rightarrow> Player" where
  "mkPlayer i cs = \<lparr>id_p = i, name_p = i, cards = cs, isHuman = True, hasCalledUno = False\<rparr>"

text \<open>A deck of fourteen number cards followed by one skip card.\<close>

definition deck15 :: "Card list" where
  "deck15 = map (\<lambda>i. mkCard i Number)
              [''n01'', ''n02'', ''n03'', ''n04'', ''n05'', ''n06'', ''n07'',
               ''n08'', ''n09'', ''n10'', ''n11'', ''n12'', ''n13'', ''n14'']
            @ [mkCard ''s15'' Skip]"

text \<open>
  Three players; it is the turn of the first, who holds two cards; the third holds
  one; the direction is counter-clockwise.
\<close>

definition game3 :: GameState where
  "game3 = \<lparr>players = [mkPlayer ''a'' [mkCard ''n01'' Number, mkCard ''n02'' Number],
                       mkPlayer ''b'' [mkCard ''n03'' Number, mkCard ''n04'' Number],
                       mkPlayer ''c'' [mkCard ''n05'' Number]],
            currentPlayerIndex = 0, direction = CounterClockwise,
            topCard = Some (mkCard ''n06'' Number),
            drawPile = [mkCard ''n07'' Number, mkCard ''n08'' Number, mkCard ''n09'' Number],
            discardPile = [Some (mkCard ''n06'' Number)],
            gamePhase = PlayingPhase, wildColor = None, winner = None,
            isBlockAllActive = False\<rparr>"

definition inGame3 :: RoomSystemState where
  "inGame3 = \<lparr>currentRoom = None, currentPlayerId = Some ''a'', isHost = False,
              activeRooms = [], loading = False, error = None, isConnected = True,
              gameState = Some game3\<rparr>"



text \<open>A deck of fourteen number cards, all of which two players are dealt.\<close>

definition deck14 :: "Card list" where
  "deck14 = take 14 deck15"

text \<open>The deck of fifteen with one more number card at its end.\<close>

definition deck16 :: "Card list" where
  "deck16 = deck15 @ [mkCard ''n16'' Number]"

text \<open>
  The host of the room of two has started a game with that deck: the state
  \<open>initializeGameState\<close> leaves.
\<close>

definition hostInRoom2 :: RoomSystemState where
  "hostInRoom2 = inRoom2\<lparr>currentPlayerId := Some ''a'', isHost := True\<rparr>"

definition startedGame2 :: RoomSystemState where
  "startedGame2 = initializeGameState deck16 hostInRoom2 room2"



text \<open>
  The game of three after the third player has played the last card: \<open>playCard\<close> has
  stored that player's object as the winner.
\<close>

definition game3won :: GameState where
  "game3won = game3\<lparr>players := [mkPlayer ''a'' [mkCard ''n01'' Number, mkCard ''n02'' Number],
                                  mkPlayer ''b'' [mkCard ''n03'' Number, mkCard ''n04'' Number],
                                  mkPlayer ''c'' []],
                     currentPlayerIndex := 2,
                     topCard := Some (mkCard ''n05'' Number),
                     discardPile := [Some (mkCard ''n06'' Number), Some (mkCard ''n05'' Number)],
                     gamePhase := FinishedPhase,
                     winner := Some (mkPlayer ''c'' [])\<rparr>"

definition inGame3won :: RoomSystemState where
  "inGame3won = inGame3\<lparr>currentPlayerId := Some ''c'', gameState := Some game3won\<rparr>"

section \<open>Properties of the room stream\<close>

text \<open>
  Claim C9. Applying \<open>KICKED_FROM_ROOM\<close> to any local state gives a state whose
  \<open>currentRoom\<close>, \<open>currentPlayerId\<close> and \<open>gameState\<close> are null and whose \<open>isHost\<close> is
  false; the kick message is stored as the error and the remaining fields
  (room directory, loading flag, connection flag) are kept.
\<close>

theorem kicked_resets_local_state:
  "applyRoomEvent s KICKED_FROM_ROOM =
     \<lparr>currentRoom = None, currentPlayerId = None, isHost = False,
      activeRooms = activeRooms s, loading = loading s, error = Some kickedMessage,
      isConnected = isConnected s, gameState = None\<rparr>"
  by (cases s) simp

lemma length_filter_neq_id:
  "int (length (filter (\<lambda>p. id_rp p \<noteq> pid) ps))
     = int (length ps) - int (length (filter (\<lambda>p. id_rp p = pid) ps))"
  by (induction ps) auto

lemma filter_neq_id_absent:
  "length (filter (\<lambda>p. id_rp p = pid) ps) = 0 \<Longrightarrow> filter (\<lambda>p. id_rp p \<noteq> pid) ps = ps"
  by (induction ps) (auto split: if_splits)

text \<open>
  Claim C2, as stated: \<open>PLAYER_JOINED\<close> for a player already in the room is a no-op.
  It is not: in a room that holds Bob, the event for Bob changes the state and leaves
  two entries with Bob's id.
\<close>

theorem player_joined_duplicate_counterexample:
  "idCount ''b'' room2 = 1 \<and>
   applyRoomEvent inRoom2 (PLAYER_JOINED bob) \<noteq> inRoom2 \<and>
   idCount ''b'' (the (currentRoom (applyRoomEvent inRoom2 (PLAYER_JOINED bob)))) = 2"
  by (simp add: inRoom2_def room2_def alice_def bob_def idCount_def)

text \<open>
  Claim C2, amended. With a current room, \<open>PLAYER_JOINED\<close> appends the event's player
  at the end of the roster and adds one to \<open>currentPlayers\<close>, whether or not a player
  with that id is present: each delivery adds one entry with that id.
\<close>

theorem player_joined_appends:
  assumes "currentRoom s = Some room"
  shows "\<exists>room'. currentRoom (applyRoomEvent s (PLAYER_JOINED p)) = Some room'
           \<and> players_r room' = players_r room @ [p]
           \<and> currentPlayers room' = currentPlayers room + 1
           \<and> idCount (id_rp p) room' = Suc (idCount (id_rp p) room)"
  using assms by (simp add: idCount_def)

theorem player_joined_appends_witness:
  "currentRoom inRoom2 = Some room2 \<and>
   (\<exists>room'. currentRoom (applyRoomEvent inRoom2 (PLAYER_JOINED bob)) = Some room'
           \<and> players_r room' = [alice, bob, bob]
           \<and> currentPlayers room' = 3
           \<and> idCount ''b'' room' = 2)"
proof -
  have h: "currentRoom inRoom2 = Some room2" by (simp add: inRoom2_def)
  have c: "idCount ''b'' room2 = 1" by (simp add: idCount_def room2_def alice_def bob_def)
  from player_joined_appends [OF h, of bob] c h show ?thesis
    by (simp add: room2_def bob_def)
qed

text \<open>
  Claim C4, as stated: every room-stream event keeps \<open>currentPlayers\<close> equal to the
  length of the roster, \<open>PLAYER_LEFT\<close> for an absent id included. It does not: in a
  room of two with the counter at two, \<open>PLAYER_LEFT\<close> for an id nobody has leaves both
  players in the roster and takes the counter to one.
\<close>

theorem player_left_absent_counterexample:
  "roomCountOk inRoom2 \<and> idCount ''z'' room2 = 0 \<and>
   \<not> roomCountOk (applyRoomEvent inRoom2 (PLAYER_LEFT ''z''))"
  by (simp add: roomCountOk_def inRoom2_def room2_def alice_def bob_def idCount_def)

text \<open>
  Claim C4, amended. A room-stream event keeps \<open>currentPlayers\<close> equal to the length
  of the roster, provided that a \<open>PLAYER_LEFT\<close> event names an id that exactly one
  player of the room has. \<open>PLAYER_LEFT\<close> for an id that no player has leaves the
  roster as it is and still takes one from \<open>currentPlayers\<close>.
\<close>

theorem room_count_events:
  "(roomCountOk s \<and>
      (\<forall>pid room. e = PLAYER_LEFT pid \<longrightarrow> currentRoom s = Some room \<longrightarrow> idCount pid room = 1)
     \<longrightarrow> roomCountOk (applyRoomEvent s e))
   \<and> (currentRoom s = Some room \<and> idCount pid room = 0
     \<longrightarrow> (\<exists>room'. currentRoom (applyRoomEvent s (PLAYER_LEFT pid)) = Some room'
            \<and> players_r room' = players_r room
            \<and> currentPlayers room' = currentPlayers room - 1))"
proof (intro conjI impI)
  assume a: "roomCountOk s \<and>
      (\<forall>pid room. e = PLAYER_LEFT pid \<longrightarrow> currentRoom s = Some room \<longrightarrow> idCount pid room = 1)"
  show "roomCountOk (applyRoomEvent s e)"
  proof (cases e)
    case (PLAYER_LEFT pid)
    show ?thesis
    proof (cases "currentRoom s")
      case None
      with PLAYER_LEFT a show ?thesis by (simp add: roomCountOk_def)
    next
      case (Some r)
      with a PLAYER_LEFT have "idCount pid r = 1" by blast
      then have "int (length (filter (\<lambda>p. id_rp p \<noteq> pid) (players_r r)))
                   = int (length (players_r r)) - 1"
        by (simp add: length_filter_neq_id idCount_def)
      with a Some PLAYER_LEFT show ?thesis by (simp add: roomCountOk_def)
    qed
  qed (use a in \<open>auto simp: roomCountOk_def Let_def split: option.splits\<close>)
next
  assume "currentRoom s = Some room \<and> idCount pid room = 0"
  then show "\<exists>room'. currentRoom (applyRoomEvent s (PLAYER_LEFT pid)) = Some room'
            \<and> players_r room' = players_r room
            \<and> currentPlayers room' = currentPlayers room - 1"
    by (simp add: idCount_def filter_neq_id_absent)
qed

theorem room_count_events_witness:
  "roomCountOk inRoom2 \<and> idCount ''b'' room2 = 1 \<and>
   roomCountOk (applyRoomEvent inRoom2 (PLAYER_LEFT ''b'')) \<and>
   currentRoom inRoom2 = Some room2 \<and> idCount ''z'' room2 = 0 \<and>
   (\<exists>room'. currentRoom (applyRoomEvent inRoom2 (PLAYER_LEFT ''z'')) = Some room'
            \<and> players_r room' = [alice, bob] \<and> currentPlayers room' = 1)"
proof -
  have h1: "roomCountOk inRoom2"
    by (simp add: roomCountOk_def inRoom2_def room2_def)
  have h2: "currentRoom inRoom2 = Some room2" by (simp add: inRoom2_def)
  have h3: "idCount ''b'' room2 = 1" by (simp add: idCount_def room2_def alice_def bob_def)
  have h4: "idCount ''z'' room2 = 0" by (simp add: idCount_def room2_def alice_def bob_def)
  have h5: "\<forall>pid room. PLAYER_LEFT ''b'' = PLAYER_LEFT pid \<longrightarrow> currentRoom inRoom2 = Some room
              \<longrightarrow> idCount pid room = 1"
    using h2 h3 by simp
  from room_count_events [of inRoom2 "PLAYER_LEFT ''b''" room2 "''z''"] h1 h2 h3 h4 h5
  show ?thesis by (simp add: room2_def)
qed

text \<open>
  Claim C5, as stated: after \<open>HOST_CHANGED\<close> on a non-empty room exactly one player
  has \<open>isHost\<close> set. It fails when the new host's id is not in the roster: the room of
  Alice and Bob is left with no host at all.
\<close>

theorem host_changed_absent_counterexample:
  "players_r room2 \<noteq> [] \<and>
   hostCount (the (currentRoom (applyRoomEvent inRoom2 (HOST_CHANGED ''z'')))) = 0"
  by (simp add: inRoom2_def room2_def alice_def bob_def hostCount_def)

text \<open>
  Claim C5, amended. After \<open>HOST_CHANGED\<close> on a current room, the players with
  \<open>isHost\<close> set are those whose id is the new host's id, so their number is the number
  of players with that id (exactly one when exactly one player has it, none when none
  has); the roster keeps its length, \<open>hostId\<close> is the new id, and the local \<open>isHost\<close>
  flag says whether \<open>currentPlayerId\<close> is the new host's id.
\<close>

theorem host_changed_flags:
  assumes "currentRoom s = Some room"
  shows "\<exists>room'. currentRoom (applyRoomEvent s (HOST_CHANGED h)) = Some room'
           \<and> hostId room' = h
           \<and> length (players_r room') = length (players_r room)
           \<and> list_all (\<lambda>p. isHost_rp p = (id_rp p = h)) (players_r room')
           \<and> hostCount room' = idCount h room
           \<and> isHost (applyRoomEvent s (HOST_CHANGED h)) = (currentPlayerId s = Some h)"
  using assms
  by (simp add: hostCount_def idCount_def Let_def list_all_iff comp_def)

theorem host_changed_flags_witness:
  "currentRoom inRoom2 = Some room2 \<and>
   (\<exists>room'. currentRoom (applyRoomEvent inRoom2 (HOST_CHANGED ''b'')) = Some room'
           \<and> hostId room' = ''b''
           \<and> length (players_r room') = 2
           \<and> hostCount room' = 1
           \<and> isHost (applyRoomEvent inRoom2 (HOST_CHANGED ''b'')))"
proof -
  have h: "currentRoom inRoom2 = Some room2" by (simp add: inRoom2_def)
  have c: "idCount ''b'' room2 = 1" by (simp add: idCount_def room2_def alice_def bob_def)
  have i: "currentPlayerId inRoom2 = Some ''b''" by (simp add: inRoom2_def)
  have l: "length (players_r room2) = 2" by (simp add: room2_def)
  from host_changed_flags [OF h, of "''b''"] c h i l show ?thesis by auto
qed

section \<open>Properties of the game actions\<close>

subsection \<open>Lemmas on the loops and on the roster\<close>

lemma drawLoop_eq:
  "drawLoop n pile hand drawn =
     (take (length pile - n) pile,
      hand @ rev (drop (length pile - n) pile),
      drawn @ rev (drop (length pile - n) pile))"
proof (induction n arbitrary: pile hand drawn)
  case 0
  then show ?case by simp
next
  case (Suc n)
  show ?case
  proof (cases "pile = []")
    case True
    then show ?thesis using Suc by simp
  next
    case False
    then obtain ys y where p: "pile = ys @ [y]" by (metis rev_exhaust)
    show ?thesis using Suc[of ys "hand @ [y]" "drawn @ [y]"] 
      by (simp add: p)
  qed
qed

lemma find_updateFirst:
  "find P xs = Some x \<Longrightarrow> (\<And>y. P y \<Longrightarrow> P (f y)) \<Longrightarrow> find P (updateFirst P f xs) = Some (f x)"
  by (induction xs) (auto split: if_splits)

lemma find_Some_iff_mem:
  "pid \<in> set (map id_p ps) \<Longrightarrow> \<exists>p. find (\<lambda>p. id_p p = pid) ps = Some p \<and> id_p p = pid \<and> p \<in> set ps"
  by (induction ps) auto

lemma find_None_notin:
  "pid \<notin> set (map id_p ps) \<Longrightarrow> find (\<lambda>p. id_p p = pid) ps = None"
  by (induction ps) auto

lemma find_mem: "find P xs = Some x \<Longrightarrow> x \<in> set xs \<and> P x"
  by (induction xs) (auto split: if_splits)


lemma playCard_accepted:
  assumes gs: "gameState s = Some gs"
    and me: "\<not> falsyId (currentPlayerId s)"
    and idx: "currentPlayerIndex gs < length (players gs)"
    and cur: "id_p (players gs ! currentPlayerIndex gs) = pid"
    and f: "find (\<lambda>p. id_p p = pid) (players gs) = Some player"
    and h: "hand = filter (\<lambda>x. id_c x \<noteq> id_c c) (cards player)"
    and g: "played = gs\<lparr>players := updateFirst (\<lambda>p. id_p p = pid) (\<lambda>p. p\<lparr>cards := hand\<rparr>) (players gs),
                       discardPile := discardPile gs @ [Some c],
                       topCard := Some c,
                       wildColor := (if type_c c = Wild \<or> type_c c = WildDrawFour
                                     then Some (case col of Some x \<Rightarrow> x | None \<Rightarrow> Red)
                                     else None)\<rparr>"
  shows "playCard s pid c col =
           Inr (s\<lparr>gameState := Some
                  (if hand = []
                   then played\<lparr>gamePhase := FinishedPhase, winner := Some (player\<lparr>cards := hand\<rparr>)\<rparr>
                   else played\<lparr>currentPlayerIndex :=
                                 (currentPlayerIndex gs + 1) mod length (players gs)\<rparr>)\<rparr>)"
proof -
  have i: "id_p player = pid" using find_mem [OF f] by simp
  show ?thesis
    unfolding playCard_def Let_def using gs me idx cur f i
    by (simp add: nthOpt_def h g split del: if_split cong: if_cong)
qed

lemma game3_facts:
  "gameState inGame3 = Some game3"
  "\<not> falsyId (currentPlayerId inGame3)"
  "currentPlayerIndex game3 < length (players game3)"
  "id_p (players game3 ! currentPlayerIndex game3) = ''a''"
  "find (\<lambda>p. id_p p = ''a'') (players game3)
     = Some (mkPlayer ''a'' [mkCard ''n01'' Number, mkCard ''n02'' Number])"
  by (simp_all add: inGame3_def game3_def falsyId_def mkPlayer_def)

subsection \<open>Playing a card\<close>




text \<open>
  Claim C3, as stated: a play by the current player of a card that is not in the
  hand is rejected and changes nothing. It is not rejected: the first player of the
  example holds the cards n01 and n02 and plays a card zz; the card lands on the
  discard pile, becomes the top card, and the turn passes on.
\<close>

theorem playCard_absent_card_counterexample:
  "find (\<lambda>p. id_p p = ''a'') (players game3)
     = Some (mkPlayer ''a'' [mkCard ''n01'' Number, mkCard ''n02'' Number])
   \<and> id_c (mkCard ''zz'' Skip) \<notin> set (map id_c [mkCard ''n01'' Number, mkCard ''n02'' Number])
   \<and> playCard inGame3 ''a'' (mkCard ''zz'' Skip) None \<noteq> Inr inGame3
   \<and> playCard inGame3 ''a'' (mkCard ''zz'' Skip) None
       = Inr (inGame3\<lparr>gameState := Some (game3
               \<lparr>discardPile := [Some (mkCard ''n06'' Number), Some (mkCard ''zz'' Skip)],
                topCard := Some (mkCard ''zz'' Skip),
                currentPlayerIndex := 1\<rparr>)\<rparr>)"
  by (simp add: playCard_def inGame3_def game3_def falsyId_def mkPlayer_def mkCard_def nthOpt_def)

text \<open>
  Claim C3, amended. On a hook with a game state and a player id, a play by the
  current player of a card whose id is not in that player's hand is accepted like
  any other play: every hand stays as it is, the card is appended to the discard
  pile and becomes the top card.
\<close>

theorem playCard_absent_card_accepted:
  assumes gs: "gameState s = Some gs"
    and me: "\<not> falsyId (currentPlayerId s)"
    and idx: "currentPlayerIndex gs < length (players gs)"
    and cur: "id_p (players gs ! currentPlayerIndex gs) = pid"
    and f: "find (\<lambda>p. id_p p = pid) (players gs) = Some player"
    and absent: "id_c c \<notin> set (map id_c (cards player))"
  shows "\<exists>gs'. playCard s pid c col = Inr (s\<lparr>gameState := Some gs'\<rparr>)
         \<and> players gs' = players gs
         \<and> discardPile gs' = discardPile gs @ [Some c]
         \<and> topCard gs' = Some c"
proof -
  define hand where "hand = filter (\<lambda>x. id_c x \<noteq> id_c c) (cards player)"
  define played where "played = gs\<lparr>players := updateFirst (\<lambda>p. id_p p = pid) (\<lambda>p. p\<lparr>cards := hand\<rparr>) (players gs),
                       discardPile := discardPile gs @ [Some c],
                       topCard := Some c,
                       wildColor := (if type_c c = Wild \<or> type_c c = WildDrawFour
                                     then Some (case col of Some x \<Rightarrow> x | None \<Rightarrow> Red)
                                     else None)\<rparr>"
  note run = playCard_accepted [OF gs me idx cur f hand_def played_def]
  have "\<forall>x \<in> set (cards player). id_c x \<noteq> id_c c"
    using absent by (metis image_eqI set_map)
  then have keep: "hand = cards player"
    by (simp add: hand_def filter_id_conv)
  have same: "updateFirst (\<lambda>p. id_p p = pid) (\<lambda>p. p\<lparr>cards := cards player\<rparr>) ps = ps"
    if "find (\<lambda>p. id_p p = pid) ps = Some player" for ps
    using that by (induction ps) (auto split: if_splits)
  have ps: "players played = players gs"
    by (simp add: played_def keep same [OF f])
  show ?thesis
  proof (cases "hand = []")
    case True
    with run ps show ?thesis
      by (intro exI [of _ "played\<lparr>gamePhase := FinishedPhase, winner := Some (player\<lparr>cards := hand\<rparr>)\<rparr>"])
         (simp add: played_def)
  next
    case False
    with run ps show ?thesis
      by (intro exI [of _ "played\<lparr>currentPlayerIndex :=
                                 (currentPlayerIndex gs + 1) mod length (players gs)\<rparr>"])
         (simp add: played_def)
  qed
qed

theorem playCard_absent_card_accepted_witness:
  "gameState inGame3 = Some game3
   \<and> \<not> falsyId (currentPlayerId inGame3)
   \<and> currentPlayerIndex game3 < length (players game3)
   \<and> id_p (players game3 ! currentPlayerIndex game3) = ''a''
   \<and> find (\<lambda>p. id_p p = ''a'') (players game3)
       = Some (mkPlayer ''a'' [mkCard ''n01'' Number, mkCard ''n02'' Number])
   \<and> id_c (mkCard ''zz'' Skip)
       \<notin> set (map id_c (cards (mkPlayer ''a'' [mkCard ''n01'' Number, mkCard ''n02'' Number])))
   \<and> (\<exists>gs'. playCard inGame3 ''a'' (mkCard ''zz'' Skip) None = Inr (inGame3\<lparr>gameState := Some gs'\<rparr>)
           \<and> players gs' = players game3
           \<and> discardPile gs' = discardPile game3 @ [Some (mkCard ''zz'' Skip)]
           \<and> topCard gs' = Some (mkCard ''zz'' Skip))"
proof -
  have absent: "id_c (mkCard ''zz'' Skip)
       \<notin> set (map id_c (cards (mkPlayer ''a'' [mkCard ''n01'' Number, mkCard ''n02'' Number])))"
    by (simp add: mkPlayer_def mkCard_def)
  from playCard_absent_card_accepted [OF game3_facts(1-5) absent, of None] absent game3_facts
  show ?thesis by blast
qed




subsection \<open>Drawing cards\<close>

text \<open>
  Claim C10. A draw for a player id that is not in the roster draws nothing and
  leaves the state as it is, for every count: the array is empty when it is returned
  and stays empty, and the state after the update is the state before.
\<close>

theorem drawCard_unknown_player:
  assumes "gameState s = Some gs" and "pid \<notin> set (map id_p (players gs))"
  shows "drawCard alias s pid k
           = \<lparr>returnedCards = [], stateAfterUpdate = s, cardsAfterUpdate = []\<rparr>"
  using assms by (simp add: drawCard_def find_None_notin)

theorem drawCard_unknown_player_witness:
  "gameState inGame3 = Some game3
   \<and> ''z'' \<notin> set (map id_p (players game3))
   \<and> drawCard WinnerIsCopy inGame3 ''z'' 2
       = \<lparr>returnedCards = [], stateAfterUpdate = inGame3, cardsAfterUpdate = []\<rparr>"
proof -
  have out: "''z'' \<notin> set (map id_p (players game3))" by (simp add: game3_def mkPlayer_def)
  from drawCard_unknown_player [OF game3_facts(1) out, of WinnerIsCopy 2] out show ?thesis
    by (simp add: game3_facts(1))
qed

text \<open>The array that \<open>drawCard\<close> returns is empty at that moment, whatever the arguments.\<close>

lemma drawCard_returns_empty: "returnedCards (drawCard alias s pid k) = []"
  by (simp add: drawCard_def split: option.splits prod.splits)

text \<open>Without a player id of its own the hook queues no update at all.\<close>

lemma drawCard_guard:
  "falsyId (currentPlayerId s) \<Longrightarrow>
     drawCard alias s pid k = \<lparr>returnedCards = [], stateAfterUpdate = s, cardsAfterUpdate = []\<rparr>"
  by (simp add: drawCard_def)

text \<open>
  What the update does once it runs, on a hook with a game state and a player id,
  for a player id of the roster and a count \<open>k \<ge> 0\<close>: the array receives exactly
  \<open>min(k, drawPile.length)\<close> cards, the last cards of the draw pile with the last card
  first; the draw pile loses those cards and the hand of that player (the first of
  the roster with that id) gains them at its end; a winner that is that player's
  object shows the new hand; nothing else of the game state changes, and whose turn
  it is plays no part.
\<close>

lemma drawCard_after_update:
  assumes gs: "gameState s = Some gs"
    and me: "\<not> falsyId (currentPlayerId s)"
    and inr: "pid \<in> set (map id_p (players gs))"
    and k: "0 \<le> k"
  shows "\<exists>player drawn gs'.
           find (\<lambda>p. id_p p = pid) (players gs) = Some player
         \<and> drawCard alias s pid k
             = \<lparr>returnedCards = [], stateAfterUpdate = s\<lparr>gameState := Some gs'\<rparr>,
                cardsAfterUpdate = drawn\<rparr>
         \<and> length drawn = nat (min k (int (length (drawPile gs))))
         \<and> drawn = rev (drop (length (drawPile gs) - length drawn) (drawPile gs))
         \<and> drawPile gs' = take (length (drawPile gs) - length drawn) (drawPile gs)
         \<and> length (drawPile gs') = length (drawPile gs) - length drawn
         \<and> find (\<lambda>p. id_p p = pid) (players gs') = Some (player\<lparr>cards := cards player @ drawn\<rparr>)
         \<and> length (cards player @ drawn) = length (cards player) + length drawn
         \<and> gs' = gs\<lparr>players := updateFirst (\<lambda>p. id_p p = pid)
                                    (\<lambda>p. p\<lparr>cards := cards player @ drawn\<rparr>) (players gs),
                     drawPile := take (length (drawPile gs) - length drawn) (drawPile gs),
                     winner := (case winner gs of
                                  None \<Rightarrow> None
                                | Some w \<Rightarrow>
                                    if alias = WinnerIsRosterObject \<and> id_p w = pid
                                    then Some (player\<lparr>cards := cards player @ drawn\<rparr>)
                                    else Some w)\<rparr>"
proof -
  from inr obtain player where f: "find (\<lambda>p. id_p p = pid) (players gs) = Some player"
    using find_Some_iff_mem by blast
  define m where "m = nat (min k (int (length (drawPile gs))))"
  define drawn where "drawn = rev (drop (length (drawPile gs) - m) (drawPile gs))"
  have ld: "length drawn = m"
    using k by (auto simp: drawn_def m_def min_def)
  have cut: "length (drawPile gs) - nat k = length (drawPile gs) - m"
    using k by (auto simp: m_def min_def)
  have loop: "drawLoop (nat k) (drawPile gs) (cards player) []
                = (take (length (drawPile gs) - m) (drawPile gs), cards player @ drawn, drawn)"
    by (simp add: drawLoop_eq cut drawn_def)
  define gs' where "gs' = gs\<lparr>players := updateFirst (\<lambda>p. id_p p = pid)
                                    (\<lambda>p. p\<lparr>cards := cards player @ drawn\<rparr>) (players gs),
                     drawPile := take (length (drawPile gs) - m) (drawPile gs),
                     winner := (case winner gs of
                                  None \<Rightarrow> None
                                | Some w \<Rightarrow>
                                    if alias = WinnerIsRosterObject \<and> id_p w = pid
                                    then Some (player\<lparr>cards := cards player @ drawn\<rparr>)
                                    else Some w)\<rparr>"
  have run: "drawCard alias s pid k
             = \<lparr>returnedCards = [], stateAfterUpdate = s\<lparr>gameState := Some gs'\<rparr>,
                cardsAfterUpdate = drawn\<rparr>"
    using gs me f by (simp add: drawCard_def loop gs'_def)
  have f': "find (\<lambda>p. id_p p = pid) (players gs') = Some (player\<lparr>cards := cards player @ drawn\<rparr>)"
    using find_updateFirst [OF f, of "\<lambda>p. p\<lparr>cards := cards player @ drawn\<rparr>"]
    by (simp add: gs'_def)
  have a1: "length drawn = nat (min k (int (length (drawPile gs))))"
    using ld by (simp add: m_def)
  have a2: "drawn = rev (drop (length (drawPile gs) - length drawn) (drawPile gs))"
    unfolding ld by (rule drawn_def)
  have a3: "drawPile gs' = take (length (drawPile gs) - length drawn) (drawPile gs)"
    unfolding ld by (simp add: gs'_def)
  have a4: "length (drawPile gs') = length (drawPile gs) - length drawn"
    by (simp add: a3)
  have a5: "length (cards player @ drawn) = length (cards player) + length drawn"
    by simp
  have a6: "gs' = gs\<lparr>players := updateFirst (\<lambda>p. id_p p = pid)
                                    (\<lambda>p. p\<lparr>cards := cards player @ drawn\<rparr>) (players gs),
                     drawPile := take (length (drawPile gs) - length drawn) (drawPile gs),
                     winner := (case winner gs of
                                  None \<Rightarrow> None
                                | Some w \<Rightarrow>
                                    if alias = WinnerIsRosterObject \<and> id_p w = pid
                                    then Some (player\<lparr>cards := cards player @ drawn\<rparr>)
                                    else Some w)\<rparr>"
    unfolding ld by (rule gs'_def)
  show ?thesis
    by (intro exI [of _ player] exI [of _ drawn] exI [of _ gs'] conjI)
       (rule f run a1 a2 a3 a4 f' a5 a6)+
qed

text \<open>
  After the third player has won, a draw of one card for that player puts the card
  into the hand and into the winner's hand, the same object.
\<close>

lemma drawCard_by_winner:
  "map_option winner (gameState (stateAfterUpdate (drawCard WinnerIsRosterObject inGame3won ''c'' 1)))
     = Some (Some (mkPlayer ''c'' [mkCard ''n09'' Number]))
   \<and> map_option winner (gameState (stateAfterUpdate (drawCard WinnerIsCopy inGame3won ''c'' 1)))
     = Some (Some (mkPlayer ''c'' []))"
  by (simp add: drawCard_def inGame3won_def inGame3_def game3won_def game3_def falsyId_def
        mkPlayer_def mkCard_def)

text \<open>
  Claim C7. A draw is to return exactly \<open>min(k, drawPile.length)\<close> cards. The host
  of a room of two starts a game, which leaves one card in the draw pile, and draws
  one card on the first turn, the host's own: the array the call returns is empty,
  and the card is in it only after the update has run.
\<close>

theorem drawCard_returns_before_update:
  "gameState startedGame2 = Some (initialGameState deck16 room2)
   \<and> currentPlayerId startedGame2 = Some ''a''
   \<and> map id_p (players (initialGameState deck16 room2)) = [''a'', ''b'']
   \<and> drawPile (initialGameState deck16 room2) = [mkCard ''s15'' Skip]
   \<and> min 1 (length (drawPile (initialGameState deck16 room2))) = 1
   \<and> returnedCards (drawCard WinnerIsCopy startedGame2 ''a'' 1) = []
   \<and> cardsAfterUpdate (drawCard WinnerIsCopy startedGame2 ''a'' 1) = [mkCard ''s15'' Skip]
   \<and> map_option drawPile (gameState (stateAfterUpdate (drawCard WinnerIsCopy startedGame2 ''a'' 1)))
       = Some []"
  by code_simp

section \<open>Properties of the deal\<close>
















text \<open>
  When dealing uses up the whole deck there is no card for the top either: the top
  card is \<open>undefined\<close> and the discard pile holds that one \<open>undefined\<close> entry.
\<close>

lemma init_exhausted_deck:
  "length deck14 = 14
   \<and> topCard (initialGameState deck14 room2) = None
   \<and> drawPile (initialGameState deck14 room2) = []
   \<and> discardPile (initialGameState deck14 room2) = [None]"
  by code_simp

end
